theory Spec2Isabelle
  imports Main
begin

section \<open>JavaScript values\<close>

text \<open>
  The launcher \<^verbatim>\<open>executeCodeCommand\<close> of
  \<^verbatim>\<open>packages/cli/src/utils/codeCommand.ts\<close> works on loosely typed values: the
  configuration object, the preset, the environment mappings and the object that
  \<^verbatim>\<open>minimist\<close> returns. They are modelled by one datatype of JavaScript values.
  An object is an association list in insertion order; a well-formed object has
  distinct keys. Numbers are the integer-valued ones.
\<close>

datatype json =
    JUndefined
  | JNull
  | JBool bool
  | JNum int
  | JStr string
  | JArr "json list"
  | JObj "(string \<times> json) list"

type_synonym obj = "(string \<times> json) list"

text \<open>The truthiness test of \<^verbatim>\<open>if (v)\<close>, \<^verbatim>\<open>v ? a : b\<close> and \<^verbatim>\<open>a || b\<close>.\<close>

fun truthy :: "json \<Rightarrow> bool" where
  "truthy JUndefined = False"
| "truthy JNull = False"
| "truthy (JBool b) = b"
| "truthy (JNum n) = (n \<noteq> 0)"
| "truthy (JStr s) = (s \<noteq> [])"
| "truthy (JArr xs) = True"
| "truthy (JObj kvs) = True"

definition js_or :: "json \<Rightarrow> json \<Rightarrow> json" where
  "js_or a b = (if truthy a then a else b)"

text \<open>Reading a property of an object: \<^verbatim>\<open>undefined\<close> when the key is absent.\<close>

definition obj_get :: "obj \<Rightarrow> string \<Rightarrow> json" where
  "obj_get kvs k = (case map_of kvs k of None \<Rightarrow> JUndefined | Some v \<Rightarrow> v)"

text \<open>
  \<^verbatim>\<open>v?.k\<close>, and \<^verbatim>\<open>v.k\<close> where \<^verbatim>\<open>v\<close> is known not to be null or undefined, for the
  keys the launcher reads (\<^verbatim>\<open>StatusLine\<close>, \<^verbatim>\<open>enabled\<close>, \<^verbatim>\<open>claudeCodeSettings\<close>,
  \<^verbatim>\<open>env\<close>): only an object can carry them.
\<close>

fun opt_get :: "json \<Rightarrow> string \<Rightarrow> json" where
  "opt_get (JObj kvs) k = obj_get kvs k"
| "opt_get v k = JUndefined"

text \<open>
  Writing a property, \<^verbatim>\<open>o[k] = v\<close>: an existing key keeps its place, a new key is
  appended.
\<close>

fun obj_set :: "string \<Rightarrow> json \<Rightarrow> obj \<Rightarrow> obj" where
  "obj_set k v [] = [(k, v)]"
| "obj_set k v ((k', v') # kvs) =
     (if k' = k then (k, v) # kvs else (k', v') # obj_set k v kvs)"

text \<open>Decimal index keys of arrays and strings.\<close>

fun show_nat :: "nat \<Rightarrow> string" where
  "show_nat n =
     (if n < 10 then [char_of (48 + n)]
      else show_nat (n div 10) @ [char_of (48 + n mod 10)])"

declare show_nat.simps [simp del]

text \<open>
  The own enumerable properties that object spread \<^verbatim>\<open>{...v}\<close> and
  \<^verbatim>\<open>Object.assign(t, v)\<close> copy from a value: an object's entries, the indexed
  elements of an array, the indexed characters of a string, nothing for the other
  primitives.
\<close>

fun own_props :: "json \<Rightarrow> obj" where
  "own_props (JObj kvs) = kvs"
| "own_props (JArr xs) = zip (map show_nat [0..<length xs]) xs"
| "own_props (JStr s) = zip (map show_nat [0..<length s]) (map (\<lambda>c. JStr [c]) s)"
| "own_props v = []"

text \<open>Copying properties into a target, one write per property, in order.\<close>

definition spread_into :: "obj \<Rightarrow> obj \<Rightarrow> obj" where
  "spread_into target props = fold (\<lambda>(k, v) acc. obj_set k v acc) props target"

definition Object_assign :: "obj \<Rightarrow> json \<Rightarrow> obj" where
  "Object_assign target source = spread_into target (own_props source)"

section \<open>Collaborators\<close>

text \<open>
  What the launcher imports and does not define is a parameter of the model: the
  results of \<^verbatim>\<open>readConfigFile()\<close> and \<^verbatim>\<open>createEnvVariables()\<close>, the parent
  environment \<^verbatim>\<open>process.env\<close>, \<^verbatim>\<open>getSettingsPath\<close>, \<^verbatim>\<open>JSON.stringify\<close>,
  \<^verbatim>\<open>minimist\<close> (the entries of the object it returns, in the order of
  \<^verbatim>\<open>Object.entries\<close>), \<^verbatim>\<open>fs.openSync\<close> (\<open>None\<close> when it throws, as it does for a
  path that cannot be opened), and \<^verbatim>\<open>spawn\<close> called with a string as its command:
  the child process it returns, with or without a \<^verbatim>\<open>stdin\<close> and a \<^verbatim>\<open>stdout\<close> stream,
  or \<open>None\<close> when it throws synchronously (a NUL byte in the command or in an
  argument, an error of the operating system that is not reported through the child's
  \<^verbatim>\<open>error\<close> event).
\<close>

datatype StdioOptions = StdioInherit | StdioArray "string list"

record SpawnOptions =
  env :: obj
  stdio :: StdioOptions
  shell :: bool

record ChildProcess =
  stdin :: bool
  stdout :: bool

record world =
  readConfigFile :: obj
  createEnvVariables :: obj
  process_env :: obj
  getSettingsPath :: "string \<Rightarrow> string"
  JSON_stringify :: "json \<Rightarrow> string"
  minimist :: "string list \<Rightarrow> obj"
  fs_openSync :: "json \<Rightarrow> nat option"
  spawn :: "string \<Rightarrow> string list \<Rightarrow> SpawnOptions \<Rightarrow> ChildProcess option"

section \<open>The settings payload (lines 33 to 85)\<close>

text \<open>Lines 34 to 44: the environment, the overrides written over it, the first payload.\<close>

definition initial_settingsFlag :: "world \<Rightarrow> json \<Rightarrow> obj" where
  "initial_settingsFlag w envOverrides =
     (let env0 = createEnvVariables w;
          env1 = (if truthy envOverrides then Object_assign env0 envOverrides else env0)
      in [(''env'', JObj env1)])"

text \<open>Lines 48 to 61: the status line, preset before global configuration.\<close>

definition statuslineCommand :: "string option \<Rightarrow> string" where
  "statuslineCommand presetName =
     (case presetName of
        None \<Rightarrow> ''ccr statusline''
      | Some n \<Rightarrow> if n \<noteq> [] then ''ccr statusline '' @ n else ''ccr statusline'')"

definition add_statusLine :: "obj \<Rightarrow> json \<Rightarrow> string option \<Rightarrow> obj \<Rightarrow> obj" where
  "add_statusLine config presetConfig presetName settingsFlag =
     (let statusLineConfig =
            js_or (opt_get presetConfig ''StatusLine'') (obj_get config ''StatusLine'')
      in if truthy (opt_get statusLineConfig ''enabled'')
         then obj_set ''statusLine''
                (JObj [(''type'', JStr ''command''),
                       (''command'', JStr (statuslineCommand presetName)),
                       (''padding'', JNum 0)])
                settingsFlag
         else settingsFlag)"

text \<open>Lines 64 to 74: the preset's \<^verbatim>\<open>claudeCodeSettings\<close> merged into the payload.\<close>

definition merge_claudeCodeSettings :: "json \<Rightarrow> obj \<Rightarrow> obj" where
  "merge_claudeCodeSettings presetConfig settingsFlag =
     (let ccs = opt_get presetConfig ''claudeCodeSettings''
      in if truthy ccs
         then obj_set ''env''
                (JObj (spread_into (spread_into [] (own_props (obj_get settingsFlag ''env'')))
                         (own_props (opt_get ccs ''env''))))
                (spread_into (spread_into [] settingsFlag) (own_props ccs))
         else settingsFlag)"

text \<open>Lines 77 to 85: the automation environment, written last.\<close>

definition nonInteractive_env :: "obj \<Rightarrow> obj" where
  "nonInteractive_env env0 =
     obj_set ''TERM'' (JStr ''dumb'')
       (obj_set ''NODE_NO_READLINE'' (JStr ''1'')
          (obj_set ''FORCE_COLOR'' (JStr ''0'')
             (obj_set ''CI'' (JStr ''true'') (spread_into [] env0))))"

definition force_nonInteractive :: "obj \<Rightarrow> obj \<Rightarrow> obj" where
  "force_nonInteractive config settingsFlag =
     (if truthy (obj_get config ''NON_INTERACTIVE_MODE'')
      then obj_set ''env''
             (JObj (nonInteractive_env (own_props (obj_get settingsFlag ''env''))))
             settingsFlag
      else settingsFlag)"

definition build_settingsFlag :: "world \<Rightarrow> json \<Rightarrow> json \<Rightarrow> string option \<Rightarrow> obj" where
  "build_settingsFlag w presetConfig envOverrides presetName =
     force_nonInteractive (readConfigFile w)
       (merge_claudeCodeSettings presetConfig
          (add_statusLine (readConfigFile w) presetConfig presetName
             (initial_settingsFlag w envOverrides)))"

section \<open>The argument translation (lines 103 to 128)\<close>

text \<open>
  The loop over \<^verbatim>\<open>Object.entries(argsObj)\<close>, with \<^verbatim>\<open>argsArr\<close> as accumulator.
  \<open>str\<close> is \<^verbatim>\<open>JSON.stringify\<close>, \<open>ni\<close> the truthiness of
  \<^verbatim>\<open>config.NON_INTERACTIVE_MODE\<close>.
\<close>

definition flag_prefix :: "string \<Rightarrow> string" where
  "flag_prefix argsObjKey = (if length argsObjKey = 1 then ''-'' else ''--'')"

fun translate_args :: "(json \<Rightarrow> string) \<Rightarrow> bool \<Rightarrow> obj \<Rightarrow> string list \<Rightarrow> string list" where
  "translate_args str ni [] argsArr = argsArr"
| "translate_args str ni ((argsObjKey, argsObjValue) # rest) argsArr =
     (if argsObjKey \<noteq> ''_'' \<and> argsObjValue \<noteq> JUndefined
      then (if argsObjValue = JBool True
            then translate_args str ni rest (argsArr @ [flag_prefix argsObjKey @ argsObjKey])
            else if argsObjValue = JBool False
            then translate_args str ni rest argsArr
            else if ni
            then translate_args str ni rest
                   (argsArr @ [flag_prefix argsObjKey @ argsObjKey,
                               (case argsObjValue of JStr s \<Rightarrow> s | _ \<Rightarrow> str argsObjValue)])
            else translate_args str ni rest
                   (argsArr @ [flag_prefix argsObjKey @ argsObjKey @ '' '' @ str argsObjValue]))
      else translate_args str ni rest argsArr)"

section \<open>Effects, listeners and the launch (lines 87 to 186)\<close>

text \<open>
  The calls with an effect outside the function, in the order they are made. \<open>Spawn\<close>
  records the call of \<^verbatim>\<open>spawn\<close> with its three arguments, whether it returns a child
  or throws.
\<close>

datatype effect =
    IncrementReferenceCount
  | DecrementReferenceCount
  | CloseService
  | Spawn json "string list" SpawnOptions
  | StdinPipe
  | StdinEnd
  | StdoutPipe
  | OpenSync json nat
  | WriteSync nat string
  | FsyncSync nat
  | CloseSync nat
  | ConsoleError "string list"
  | ConsoleLog "string list"
  | ProcessExit int

text \<open>
  The callbacks the launcher registers, in registration order: line 147
  (\<^verbatim>\<open>process.stdin\<close> \<^verbatim>\<open>end\<close>), line 160 (child stdout \<^verbatim>\<open>data\<close>), line 164 (child
  \<^verbatim>\<open>close\<close>, closing the output file), line 173 (child \<^verbatim>\<open>error\<close>) and line 182 (child
  \<^verbatim>\<open>close\<close>).
\<close>

datatype listener =
    OnStdinEnd
  | OnStdoutData nat
  | OnCloseFd nat
  | OnError
  | OnClose

text \<open>
  What a call of \<^verbatim>\<open>executeCodeCommand\<close> leaves behind: the caller's three objects
  as they are after the call, the payload that was persisted, the effects performed
  before the function returned, the registered listeners, and whether the function
  threw (its promise rejected) instead of returning.
\<close>

record launch =
  args_after :: "string list"
  presetConfig_after :: json
  envOverrides_after :: json
  settingsFlag :: obj
  effects :: "effect list"
  listeners :: "listener list"
  threw :: bool

text \<open>
  Line 129: \<^verbatim>\<open>spawn\<close> throws on a command that is not a string, whatever the
  operating system would do; \<open>None\<close> when it throws.
\<close>

definition spawn_call ::
  "world \<Rightarrow> json \<Rightarrow> string list \<Rightarrow> SpawnOptions \<Rightarrow> ChildProcess option" where
  "spawn_call w command argv options =
     (case command of JStr file \<Rightarrow> spawn w file argv options | _ \<Rightarrow> None)"

text \<open>Lines 145 to 150: forwarding the parent's standard input.\<close>

definition wire_stdin :: "ChildProcess \<Rightarrow> bool \<Rightarrow> effect list \<times> listener list" where
  "wire_stdin claudeProcess ni =
     (if ni \<and> stdin claudeProcess then ([StdinPipe], [OnStdinEnd]) else ([], []))"

text \<open>
  Lines 154 to 171: forwarding the child's standard output, to the file named by
  \<^verbatim>\<open>CCR_OUTPUT_FILE\<close> or to the parent's standard output. \<open>None\<close> when
  \<^verbatim>\<open>fs.openSync\<close> throws.
\<close>

definition wire_stdout ::
  "world \<Rightarrow> ChildProcess \<Rightarrow> bool \<Rightarrow> (effect list \<times> listener list) option" where
  "wire_stdout w claudeProcess ni =
     (if ni \<and> stdout claudeProcess
      then (let outputFilePath = obj_get (process_env w) ''CCR_OUTPUT_FILE''
            in if truthy outputFilePath
               then (case fs_openSync w outputFilePath of
                       None \<Rightarrow> None
                     | Some outputFd \<Rightarrow>
                         Some ([OpenSync outputFilePath outputFd],
                               [OnStdoutData outputFd, OnCloseFd outputFd]))
               else Some ([StdoutPipe], []))
      else Some ([], []))"

text \<open>
  The function. \<^verbatim>\<open>args.push\<close> on line 89 writes into the caller's array;
  \<^verbatim>\<open>Object.assign\<close> on line 38 writes into the object that
  \<^verbatim>\<open>createEnvVariables\<close> returned; the preset and the overrides are only read.
  \<^verbatim>\<open>joinedArgs\<close> of line 97 is never read and is left out. The command handed to
  \<^verbatim>\<open>spawn\<close> is the configured \<^verbatim>\<open>CLAUDE_PATH\<close>, else the one of the parent
  environment, else \<^verbatim>\<open>claude\<close>. Between the increment of line 92 and the
  registration of the handlers on lines 173 and 182, two calls can throw: \<^verbatim>\<open>spawn\<close>
  on line 129 and \<^verbatim>\<open>fs.openSync\<close> on line 159. When one does, the function stops
  there: its promise rejects, and the statements after it are not run.
\<close>

definition executeCodeCommand ::
  "world \<Rightarrow> string list \<Rightarrow> json \<Rightarrow> json \<Rightarrow> string option \<Rightarrow> launch" where
  "executeCodeCommand w args presetConfig envOverrides presetName =
     (let config = readConfigFile w;
          payload = build_settingsFlag w presetConfig envOverrides presetName;
          settingsFile = getSettingsPath w (JSON_stringify w (JObj payload));
          args' = args @ [''--settings'', settingsFile];
          ni = truthy (obj_get config ''NON_INTERACTIVE_MODE'');
          claudePath = js_or (js_or (obj_get config ''CLAUDE_PATH'')
                                    (obj_get (process_env w) ''CLAUDE_PATH''))
                             (JStr ''claude'');
          stdioConfig = (if ni then StdioArray [''pipe'', ''pipe'', ''inherit'']
                         else StdioInherit);
          argsArr = translate_args (JSON_stringify w) ni (minimist w args') [];
          options = \<lparr>env = spread_into [] (process_env w),
                     stdio = stdioConfig,
                     shell = (\<not> ni)\<rparr>;
          spawned = Spawn claudePath argsArr options
      in case spawn_call w claudePath argsArr options of
           None \<Rightarrow>
             \<lparr>args_after = args', presetConfig_after = presetConfig,
              envOverrides_after = envOverrides, settingsFlag = payload,
              effects = [IncrementReferenceCount, spawned],
              listeners = [], threw = True\<rparr>
         | Some claudeProcess \<Rightarrow>
             (let (effs_in, lsn_in) = wire_stdin claudeProcess ni
              in case wire_stdout w claudeProcess ni of
                   None \<Rightarrow>
                     \<lparr>args_after = args', presetConfig_after = presetConfig,
                      envOverrides_after = envOverrides, settingsFlag = payload,
                      effects = [IncrementReferenceCount, spawned] @ effs_in,
                      listeners = lsn_in, threw = True\<rparr>
                 | Some (effs_out, lsn_out) \<Rightarrow>
                     \<lparr>args_after = args', presetConfig_after = presetConfig,
                      envOverrides_after = envOverrides, settingsFlag = payload,
                      effects = [IncrementReferenceCount, spawned] @ effs_in @ effs_out,
                      listeners = lsn_in @ lsn_out @ [OnError, OnClose], threw = False\<rparr>))"

section \<open>Events after the launch\<close>

text \<open>
  The events the registered listeners react to: the child's \<^verbatim>\<open>error\<close> with the
  error's message, the child's \<^verbatim>\<open>close\<close> with its exit code (\<open>None\<close> for
  \<^verbatim>\<open>null\<close>, a child ended by a signal), a chunk of the child's standard output,
  the end of the parent's standard input.
\<close>

datatype event =
    EvError string
  | EvClose "int option"
  | EvStdoutData string
  | EvStdinEnd

record host =
  trace :: "effect list"
  exited :: "int option"

text \<open>\<^verbatim>\<open>code || 0\<close> of line 185.\<close>

definition code_or_0 :: "int option \<Rightarrow> int" where
  "code_or_0 code = (case code of None \<Rightarrow> 0 | Some c \<Rightarrow> if c \<noteq> 0 then c else 0)"

text \<open>The body of each listener on an event; nothing when it does not listen to it.\<close>

fun listener_body :: "listener \<Rightarrow> event \<Rightarrow> effect list" where
  "listener_body OnStdinEnd EvStdinEnd = [StdinEnd]"
| "listener_body (OnStdoutData outputFd) (EvStdoutData chunk) =
     [WriteSync outputFd chunk, FsyncSync outputFd]"
| "listener_body (OnCloseFd outputFd) (EvClose code) = [CloseSync outputFd]"
| "listener_body OnError (EvError message) =
     [ConsoleError [''Failed to start claude command:'', message],
      ConsoleLog [''Make sure Claude Code is installed: npm install -g @anthropic-ai/claude-code''],
      DecrementReferenceCount,
      ProcessExit 1]"
| "listener_body OnClose (EvClose code) =
     [DecrementReferenceCount, CloseService, ProcessExit (code_or_0 code)]"
| "listener_body l ev = []"

text \<open>
  Effects are performed one at a time; \<^verbatim>\<open>process.exit\<close> ends the host process, and
  nothing runs after it.
\<close>

fun perform :: "effect list \<Rightarrow> host \<Rightarrow> host" where
  "perform [] h = h"
| "perform (e # es) h =
     (case exited h of
        Some c \<Rightarrow> h
      | None \<Rightarrow>
          perform es
            (h\<lparr>trace := trace h @ [e],
               exited := (case e of ProcessExit c \<Rightarrow> Some c | _ \<Rightarrow> None)\<rparr>))"

text \<open>An event runs the listeners in registration order.\<close>

fun emit :: "listener list \<Rightarrow> event \<Rightarrow> host \<Rightarrow> host" where
  "emit [] ev h = h"
| "emit (l # ls) ev h = emit ls ev (perform (listener_body l ev) h)"

definition deliver :: "listener list \<Rightarrow> event list \<Rightarrow> host \<Rightarrow> host" where
  "deliver ls evs h = fold (emit ls) evs h"

text \<open>The host process right after \<^verbatim>\<open>executeCodeCommand\<close> has run.\<close>

definition after_launch :: "launch \<Rightarrow> host" where
  "after_launch L = \<lparr>trace = effects L, exited = None\<rparr>"

definition decrements :: "effect list \<Rightarrow> nat" where
  "decrements t = count_list t DecrementReferenceCount"

definition increments :: "effect list \<Rightarrow> nat" where
  "increments t = count_list t IncrementReferenceCount"

section \<open>Auxiliary definitions for the proofs\<close>

text \<open>
  The tokens one entry of the parsed object contributes to \<^verbatim>\<open>argsArr\<close>; the loop
  \<open>translate_args\<close> is shown below to concatenate them.
\<close>

definition flag_tokens :: "(json \<Rightarrow> string) \<Rightarrow> bool \<Rightarrow> string \<times> json \<Rightarrow> string list" where
  "flag_tokens str ni e =
     (case e of (k, v) \<Rightarrow>
        if k = ''_'' \<or> v = JUndefined \<or> v = JBool False then []
        else if v = JBool True then [flag_prefix k @ k]
        else if ni then [flag_prefix k @ k, (case v of JStr s \<Rightarrow> s | _ \<Rightarrow> str v)]
        else [flag_prefix k @ k @ '' '' @ str v])"

text \<open>The \<^verbatim>\<open>env\<close> option and the argument vector of every \<^verbatim>\<open>spawn\<close> in a trace.\<close>

fun spawn_envs :: "effect list \<Rightarrow> obj list" where
  "spawn_envs [] = []"
| "spawn_envs (Spawn command argv options # es) = env options # spawn_envs es"
| "spawn_envs (e # es) = spawn_envs es"

fun spawn_argvs :: "effect list \<Rightarrow> string list list" where
  "spawn_argvs [] = []"
| "spawn_argvs (Spawn command argv options # es) = argv # spawn_argvs es"
| "spawn_argvs (e # es) = spawn_argvs es"

text \<open>
  The listeners other than the two of lines 173 and 182, the events those two react to,
  and the effect that ends the host process.
\<close>

fun quiet :: "listener \<Rightarrow> bool" where
  "quiet OnError = False"
| "quiet OnClose = False"
| "quiet l = True"

fun terminal :: "event \<Rightarrow> bool" where
  "terminal (EvError message) = True"
| "terminal (EvClose code) = True"
| "terminal ev = False"

fun is_exit :: "effect \<Rightarrow> bool" where
  "is_exit (ProcessExit c) = True"
| "is_exit e = False"

text \<open>The effects of wiring the streams (lines 145 to 171).\<close>

fun is_wiring :: "effect \<Rightarrow> bool" where
  "is_wiring StdinPipe = True"
| "is_wiring StdoutPipe = True"
| "is_wiring (OpenSync path fd) = True"
| "is_wiring e = False"

section \<open>Concrete runs\<close>

text \<open>
  An automation run: \<^verbatim>\<open>NON_INTERACTIVE_MODE\<close> is set, the settings file is
  \<^verbatim>\<open>/tmp/settings.json\<close>, and \<^verbatim>\<open>minimist\<close> is given by its result on the one
  argument vectors used below (\<^verbatim>\<open>--model x --settings /tmp/settings.json\<close> and
  \<^verbatim>\<open>--settings /tmp/settings.json\<close>), every other vector being read as positional
  arguments. The executable starts, with both pipes.
\<close>

definition automation_world :: world where
  "automation_world =
     \<lparr>readConfigFile = [(''NON_INTERACTIVE_MODE'', JBool True)],
      createEnvVariables =
        [(''TERM'', JStr ''xterm''), (''ANTHROPIC_BASE_URL'', JStr ''http://127.0.0.1:3456'')],
      process_env = [(''PATH'', JStr ''/usr/bin'')],
      getSettingsPath = (\<lambda>text. ''/tmp/settings.json''),
      JSON_stringify = (\<lambda>v. ''{}''),
      minimist = (\<lambda>argv.
         if argv = [''--model'', ''x'', ''--settings'', ''/tmp/settings.json'']
         then [(''_'', JArr []), (''model'', JStr ''x''),
               (''settings'', JStr ''/tmp/settings.json'')]
         else if argv = [''--settings'', ''/tmp/settings.json'']
         then [(''_'', JArr []), (''settings'', JStr ''/tmp/settings.json'')]
         else [(''_'', JArr (map JStr argv))]),
      fs_openSync = (\<lambda>path. Some 3),
      spawn = (\<lambda>file argv options. Some \<lparr>stdin = True, stdout = True\<rparr>)\<rparr>"

text \<open>
  The same run with \<^verbatim>\<open>CCR_OUTPUT_FILE\<close> naming a file in a directory that does not
  exist, so that \<^verbatim>\<open>fs.openSync\<close> throws.
\<close>

definition leak_world :: world where
  "leak_world =
     automation_world
       \<lparr>process_env :=
          [(''PATH'', JStr ''/usr/bin''), (''CCR_OUTPUT_FILE'', JStr ''/nonexistent/out.jsonl'')],
        fs_openSync := (\<lambda>path. None)\<rparr>"

text \<open>An interactive run whose global configuration enables the status line.\<close>

definition interactive_world :: world where
  "interactive_world =
     automation_world
       \<lparr>readConfigFile := [(''StatusLine'', JObj [(''enabled'', JBool True)])]\<rparr>"

section \<open>Objects: writes and spreads\<close>

lemma map_of_obj_set: "map_of (obj_set k v kvs) = (map_of kvs)(k \<mapsto> v)"
  by (induction kvs) (auto simp: fun_eq_iff)

lemma obj_get_obj_set: "obj_get (obj_set k v kvs) k' = (if k' = k then v else obj_get kvs k')"
  by (simp add: obj_get_def map_of_obj_set)

lemma obj_set_fresh: "k \<notin> fst ` set kvs \<Longrightarrow> obj_set k v kvs = kvs @ [(k, v)]"
  by (induction kvs) auto

lemma spread_into_Cons: "spread_into t ((k, v) # ps) = spread_into (obj_set k v t) ps"
  by (simp add: spread_into_def)

lemma spread_into_Nil: "spread_into t [] = t"
  by (simp add: spread_into_def)

text \<open>Spreading properties with fresh, distinct keys appends them.\<close>

lemma spread_into_distinct: "distinct (map fst (t @ ps)) \<Longrightarrow> spread_into t ps = t @ ps"
proof (induction ps arbitrary: t)
  case Nil
  then show ?case by (simp add: spread_into_Nil)
next
  case (Cons p ps)
  obtain k v where p: "p = (k, v)" by (cases p)
  from Cons.prems p have fresh: "k \<notin> fst ` set t" by auto
  from Cons.prems p have "distinct (map fst ((t @ [(k, v)]) @ ps))" by auto
  then have "spread_into (t @ [(k, v)]) ps = (t @ [(k, v)]) @ ps" by (rule Cons.IH)
  with fresh p show ?case by (simp add: spread_into_Cons obj_set_fresh)
qed

text \<open>\<^verbatim>\<open>{...o}\<close> of a well-formed object is a copy of it.\<close>

lemma spread_into_fresh_copy: "distinct (map fst ps) \<Longrightarrow> spread_into [] ps = ps"
  using spread_into_distinct [of "[]" ps] by simp

lemma map_of_spread_into_notin:
  "k \<notin> fst ` set ps \<Longrightarrow> map_of (spread_into t ps) k = map_of t k"
proof (induction ps arbitrary: t)
  case Nil
  then show ?case by (simp add: spread_into_Nil)
next
  case (Cons p ps)
  then show ?case by (cases p) (auto simp: spread_into_Cons map_of_obj_set)
qed

text \<open>\<^verbatim>\<open>{...a, ...b}\<close>: the keys of \<open>b\<close> win, the other keys of \<open>a\<close> stay.\<close>

lemma map_of_spread_into:
  "distinct (map fst ps) \<Longrightarrow> map_of (spread_into t ps) = map_of t ++ map_of ps"
proof (induction ps arbitrary: t)
  case Nil
  then show ?case by (simp add: spread_into_Nil)
next
  case (Cons p ps)
  obtain k v where p: "p = (k, v)" by (cases p)
  from Cons.prems p have k: "k \<notin> fst ` set ps" and d: "distinct (map fst ps)" by auto
  have "map_of (spread_into (obj_set k v t) ps) = map_of (obj_set k v t) ++ map_of ps"
    using d by (rule Cons.IH)
  moreover have "map_of ps k = None" using k by (simp add: map_of_eq_None_iff)
  ultimately show ?case using p
    by (auto simp: spread_into_Cons map_of_obj_set fun_eq_iff map_add_def split: option.splits)
qed

section \<open>The settings payload\<close>

lemma settingsFlag_launch:
  "settingsFlag (executeCodeCommand w args presetConfig envOverrides presetName) =
     build_settingsFlag w presetConfig envOverrides presetName"
  by (simp add: executeCodeCommand_def Let_def split: option.splits prod.splits)

lemma obj_get_force_nonInteractive:
  assumes "truthy (obj_get config ''NON_INTERACTIVE_MODE'')"
  shows "obj_get (force_nonInteractive config sf) ''env'' =
           JObj (nonInteractive_env (own_props (obj_get sf ''env'')))"
  using assms by (simp add: force_nonInteractive_def obj_get_obj_set)

lemma obj_get_force_nonInteractive_other:
  "k \<noteq> ''env'' \<Longrightarrow> obj_get (force_nonInteractive config sf) k = obj_get sf k"
  by (simp add: force_nonInteractive_def obj_get_obj_set)

lemma obj_get_merge_other:
  assumes "k \<noteq> ''env''"
    and "k \<notin> fst ` set (own_props (opt_get presetConfig ''claudeCodeSettings''))"
    and "distinct (map fst sf)"
  shows "obj_get (merge_claudeCodeSettings presetConfig sf) k = obj_get sf k"
  using assms
  by (simp add: merge_claudeCodeSettings_def Let_def obj_get_def map_of_obj_set
      map_of_spread_into_notin spread_into_fresh_copy)

lemma add_statusLine_enabled:
  assumes "truthy (opt_get presetConfig ''StatusLine'')"
    and "truthy (opt_get (opt_get presetConfig ''StatusLine'') ''enabled'')"
  shows "add_statusLine config presetConfig presetName [(''env'', e)] =
           [(''env'', e),
            (''statusLine'', JObj [(''type'', JStr ''command''),
                                   (''command'', JStr (statuslineCommand presetName)),
                                   (''padding'', JNum 0)])]"
  using assms by (simp add: add_statusLine_def js_or_def)

text \<open>
  Claim C2. For a preset whose \<^verbatim>\<open>claudeCodeSettings\<close> is an object, the merge of lines
  64 to 74 is shallow on the top-level keys, the preset winning on a conflict, and deep
  on \<^verbatim>\<open>env\<close>: every key of the preset's \<^verbatim>\<open>env\<close> overrides the same key of the
  payload's \<^verbatim>\<open>env\<close>, and every other key of the payload's \<^verbatim>\<open>env\<close> survives. The
  objects involved are well formed (distinct keys). In particular the base environment
  \<^verbatim>\<open>{A:1,B:2}\<close> merged with the preset environment \<^verbatim>\<open>{B:3,C:4}\<close> is
  \<^verbatim>\<open>{A:1,B:3,C:4}\<close>.
\<close>

theorem claudeCodeSettings_merge:
  assumes "opt_get presetConfig ''claudeCodeSettings'' = JObj ccs"
    and "distinct (map fst ccs)"
    and "distinct (map fst payload)"
    and "distinct (map fst (own_props (obj_get payload ''env'')))"
    and "distinct (map fst (own_props (obj_get ccs ''env'')))"
  shows "(\<forall>k. k \<noteq> ''env'' \<longrightarrow>
            map_of (merge_claudeCodeSettings presetConfig payload) k =
              (map_of payload ++ map_of ccs) k)
       \<and> (\<exists>merged.
            map_of (merge_claudeCodeSettings presetConfig payload) ''env'' = Some (JObj merged)
          \<and> map_of merged =
              map_of (own_props (obj_get payload ''env'')) ++
              map_of (own_props (obj_get ccs ''env'')))
       \<and> merge_claudeCodeSettings
            (JObj [(''claudeCodeSettings'',
                    JObj [(''env'', JObj [(''B'', JNum 3), (''C'', JNum 4)])])])
            [(''env'', JObj [(''A'', JNum 1), (''B'', JNum 2)])] =
          [(''env'', JObj [(''A'', JNum 1), (''B'', JNum 3), (''C'', JNum 4)])]"
proof -
  have top: "map_of (merge_claudeCodeSettings presetConfig payload) k =
              (map_of payload ++ map_of ccs) k" if "k \<noteq> ''env''" for k
    using that assms(1,2,3)
    by (simp add: merge_claudeCodeSettings_def Let_def map_of_obj_set map_of_spread_into
        spread_into_fresh_copy)
  have env: "map_of (merge_claudeCodeSettings presetConfig payload) ''env'' =
      Some (JObj (spread_into (spread_into [] (own_props (obj_get payload ''env'')))
                    (own_props (obj_get ccs ''env''))))"
    using assms(1) by (simp add: merge_claudeCodeSettings_def Let_def map_of_obj_set)
  have m: "map_of (spread_into (spread_into [] (own_props (obj_get payload ''env'')))
                    (own_props (obj_get ccs ''env''))) =
           map_of (own_props (obj_get payload ''env'')) ++
           map_of (own_props (obj_get ccs ''env''))"
    using assms(4,5) by (simp add: map_of_spread_into spread_into_fresh_copy)
  have inst: "merge_claudeCodeSettings
            (JObj [(''claudeCodeSettings'',
                    JObj [(''env'', JObj [(''B'', JNum 3), (''C'', JNum 4)])])])
            [(''env'', JObj [(''A'', JNum 1), (''B'', JNum 2)])] =
          [(''env'', JObj [(''A'', JNum 1), (''B'', JNum 3), (''C'', JNum 4)])]"
    by (simp add: merge_claudeCodeSettings_def Let_def obj_get_def spread_into_def)
  from top env m inst show ?thesis by blast
qed

text \<open>
  The theorem at a preset that sets a top-level \<^verbatim>\<open>model\<close> key and an \<^verbatim>\<open>env\<close>, merged
  into a payload with an environment and a status line.
\<close>

theorem claudeCodeSettings_merge_witness:
  "opt_get (JObj [(''claudeCodeSettings'',
             JObj [(''model'', JStr ''opus''), (''env'', JObj [(''B'', JNum 3), (''C'', JNum 4)])])])
     ''claudeCodeSettings'' =
     JObj [(''model'', JStr ''opus''), (''env'', JObj [(''B'', JNum 3), (''C'', JNum 4)])]
   \<and> map_of (merge_claudeCodeSettings
        (JObj [(''claudeCodeSettings'',
           JObj [(''model'', JStr ''opus''), (''env'', JObj [(''B'', JNum 3), (''C'', JNum 4)])])])
        [(''env'', JObj [(''A'', JNum 1), (''B'', JNum 2)]), (''statusLine'', JStr ''s'')])
        ''model'' = Some (JStr ''opus'')
   \<and> map_of (merge_claudeCodeSettings
        (JObj [(''claudeCodeSettings'',
           JObj [(''model'', JStr ''opus''), (''env'', JObj [(''B'', JNum 3), (''C'', JNum 4)])])])
        [(''env'', JObj [(''A'', JNum 1), (''B'', JNum 2)]), (''statusLine'', JStr ''s'')])
        ''statusLine'' = Some (JStr ''s'')
   \<and> (\<exists>merged.
        map_of (merge_claudeCodeSettings
          (JObj [(''claudeCodeSettings'',
             JObj [(''model'', JStr ''opus''), (''env'', JObj [(''B'', JNum 3), (''C'', JNum 4)])])])
          [(''env'', JObj [(''A'', JNum 1), (''B'', JNum 2)]), (''statusLine'', JStr ''s'')])
          ''env'' = Some (JObj merged)
      \<and> map_of merged ''A'' = Some (JNum 1)
      \<and> map_of merged ''B'' = Some (JNum 3)
      \<and> map_of merged ''C'' = Some (JNum 4))"
proof -
  let ?ccs = "[(''model'', JStr ''opus''), (''env'', JObj [(''B'', JNum 3), (''C'', JNum 4)])]"
  let ?preset = "JObj [(''claudeCodeSettings'', JObj ?ccs)]"
  let ?payload = "[(''env'', JObj [(''A'', JNum 1), (''B'', JNum 2)]), (''statusLine'', JStr ''s'')]"
  have h1: "opt_get ?preset ''claudeCodeSettings'' = JObj ?ccs" by (simp add: obj_get_def)
  have h2: "distinct (map fst ?ccs)" by simp
  have h3: "distinct (map fst ?payload)" by simp
  have h4: "distinct (map fst (own_props (obj_get ?payload ''env'')))" by (simp add: obj_get_def)
  have h5: "distinct (map fst (own_props (obj_get ?ccs ''env'')))" by (simp add: obj_get_def)
  from claudeCodeSettings_merge [OF h1 h2 h3 h4 h5]
  have top: "\<forall>k. k \<noteq> ''env'' \<longrightarrow>
            map_of (merge_claudeCodeSettings ?preset ?payload) k =
              (map_of ?payload ++ map_of ?ccs) k"
    and env: "\<exists>merged.
            map_of (merge_claudeCodeSettings ?preset ?payload) ''env'' = Some (JObj merged)
          \<and> map_of merged =
              map_of (own_props (obj_get ?payload ''env'')) ++
              map_of (own_props (obj_get ?ccs ''env''))"
    by blast+
  from top have a: "map_of (merge_claudeCodeSettings ?preset ?payload) ''model'' = Some (JStr ''opus'')"
    and b: "map_of (merge_claudeCodeSettings ?preset ?payload) ''statusLine'' = Some (JStr ''s'')"
    by simp_all
  from env obtain merged where
    m: "map_of (merge_claudeCodeSettings ?preset ?payload) ''env'' = Some (JObj merged)"
    and mm: "map_of merged =
              map_of (own_props (obj_get ?payload ''env'')) ++
              map_of (own_props (obj_get ?ccs ''env''))"
    by blast
  from mm have "map_of merged ''A'' = Some (JNum 1)" "map_of merged ''B'' = Some (JNum 3)"
    "map_of merged ''C'' = Some (JNum 4)"
    by (simp_all add: obj_get_def)
  with m have "\<exists>merged.
        map_of (merge_claudeCodeSettings ?preset ?payload) ''env'' = Some (JObj merged)
      \<and> map_of merged ''A'' = Some (JNum 1)
      \<and> map_of merged ''B'' = Some (JNum 3)
      \<and> map_of merged ''C'' = Some (JNum 4)"
    by blast
  with h1 a b show ?thesis by blast
qed

text \<open>
  Claim C3. When \<^verbatim>\<open>NON_INTERACTIVE_MODE\<close> is truthy, the \<^verbatim>\<open>env\<close> of the final
  settings payload has \<^verbatim>\<open>TERM = "dumb"\<close>, \<^verbatim>\<open>CI = "true"\<close>, \<^verbatim>\<open>FORCE_COLOR = "0"\<close> and
  \<^verbatim>\<open>NODE_NO_READLINE = "1"\<close>, whatever the base environment, the overrides and the
  preset's nested settings say about these keys.
\<close>

theorem nonInteractive_override_last:
  assumes "truthy (obj_get (readConfigFile w) ''NON_INTERACTIVE_MODE'')"
  shows "opt_get (obj_get (settingsFlag
            (executeCodeCommand w args presetConfig envOverrides presetName)) ''env'')
           ''TERM'' = JStr ''dumb''
       \<and> opt_get (obj_get (settingsFlag
            (executeCodeCommand w args presetConfig envOverrides presetName)) ''env'')
           ''CI'' = JStr ''true''
       \<and> opt_get (obj_get (settingsFlag
            (executeCodeCommand w args presetConfig envOverrides presetName)) ''env'')
           ''FORCE_COLOR'' = JStr ''0''
       \<and> opt_get (obj_get (settingsFlag
            (executeCodeCommand w args presetConfig envOverrides presetName)) ''env'')
           ''NODE_NO_READLINE'' = JStr ''1''"
  using assms
  by (simp add: settingsFlag_launch build_settingsFlag_def obj_get_force_nonInteractive
      nonInteractive_env_def obj_get_obj_set)

text \<open>
  The theorem at a run where the base environment, the overrides and the preset each
  set \<^verbatim>\<open>TERM\<close> to something else.
\<close>

theorem nonInteractive_override_last_witness:
  "truthy (obj_get (readConfigFile automation_world) ''NON_INTERACTIVE_MODE'')
   \<and> opt_get (obj_get (settingsFlag
        (executeCodeCommand automation_world []
           (JObj [(''claudeCodeSettings'',
                   JObj [(''env'', JObj [(''TERM'', JStr ''xterm-256color'')])])])
           (JObj [(''TERM'', JStr ''vt100''), (''CI'', JStr ''false'')])
           None)) ''env'')
       ''TERM'' = JStr ''dumb''
   \<and> opt_get (obj_get (settingsFlag
        (executeCodeCommand automation_world []
           (JObj [(''claudeCodeSettings'',
                   JObj [(''env'', JObj [(''TERM'', JStr ''xterm-256color'')])])])
           (JObj [(''TERM'', JStr ''vt100''), (''CI'', JStr ''false'')])
           None)) ''env'')
       ''CI'' = JStr ''true''"
proof -
  have h: "truthy (obj_get (readConfigFile automation_world) ''NON_INTERACTIVE_MODE'')"
    by (simp add: automation_world_def obj_get_def)
  show ?thesis
    using h nonInteractive_override_last [OF h, of "[]"
        "JObj [(''claudeCodeSettings'',
                JObj [(''env'', JObj [(''TERM'', JStr ''xterm-256color'')])])]"
        "JObj [(''TERM'', JStr ''vt100''), (''CI'', JStr ''false'')]" None]
    by simp
qed

text \<open>
  Claim C5, as the code has it. When the preset's status-line configuration is present
  and enabled, whatever the global configuration holds, and the preset's
  \<^verbatim>\<open>claudeCodeSettings\<close> carries no \<^verbatim>\<open>statusLine\<close> key of its own, the status line of the
  settings payload is of type \<^verbatim>\<open>command\<close> with padding 0, and its command is
  \<^verbatim>\<open>ccr statusline <presetName>\<close> when a non-empty preset name was passed and
  \<^verbatim>\<open>ccr statusline\<close> otherwise.
\<close>

theorem preset_statusLine_priority:
  assumes "truthy (opt_get presetConfig ''StatusLine'')"
    and "truthy (opt_get (opt_get presetConfig ''StatusLine'') ''enabled'')"
    and "''statusLine'' \<notin> fst ` set (own_props (opt_get presetConfig ''claudeCodeSettings''))"
  shows "obj_get (settingsFlag (executeCodeCommand w args presetConfig envOverrides presetName))
           ''statusLine'' =
         JObj [(''type'', JStr ''command''),
               (''command'', JStr (case presetName of
                                     None \<Rightarrow> ''ccr statusline''
                                   | Some n \<Rightarrow> if n = [] then ''ccr statusline''
                                               else ''ccr statusline '' @ n)),
               (''padding'', JNum 0)]"
proof -
  have c: "statuslineCommand presetName =
           (case presetName of None \<Rightarrow> ''ccr statusline''
            | Some n \<Rightarrow> if n = [] then ''ccr statusline'' else ''ccr statusline '' @ n)"
    by (simp add: statuslineCommand_def split: option.splits)
  show ?thesis
    using assms(3)
    by (simp add: settingsFlag_launch build_settingsFlag_def initial_settingsFlag_def Let_def
        obj_get_force_nonInteractive_other add_statusLine_enabled [OF assms(1,2)]
        obj_get_merge_other)
       (simp add: obj_get_def c)
qed

text \<open>
  The theorem at a preset named \<^verbatim>\<open>fast\<close> whose status line is enabled and whose nested
  settings only set a model, the global status line being enabled too.
\<close>

theorem preset_statusLine_priority_witness:
  "truthy (opt_get (JObj [(''StatusLine'', JObj [(''enabled'', JBool True)]),
                          (''claudeCodeSettings'', JObj [(''model'', JStr ''opus'')])])
             ''StatusLine'')
   \<and> ''statusLine'' \<notin> fst ` set (own_props
         (opt_get (JObj [(''StatusLine'', JObj [(''enabled'', JBool True)]),
                         (''claudeCodeSettings'', JObj [(''model'', JStr ''opus'')])])
            ''claudeCodeSettings''))
   \<and> obj_get (settingsFlag (executeCodeCommand interactive_world []
         (JObj [(''StatusLine'', JObj [(''enabled'', JBool True)]),
                (''claudeCodeSettings'', JObj [(''model'', JStr ''opus'')])])
         JUndefined (Some ''fast''))) ''statusLine'' =
       JObj [(''type'', JStr ''command''), (''command'', JStr ''ccr statusline fast''),
             (''padding'', JNum 0)]"
proof -
  let ?preset = "JObj [(''StatusLine'', JObj [(''enabled'', JBool True)]),
                       (''claudeCodeSettings'', JObj [(''model'', JStr ''opus'')])]"
  have h1: "truthy (opt_get ?preset ''StatusLine'')" by (simp add: obj_get_def)
  have h2: "truthy (opt_get (opt_get ?preset ''StatusLine'') ''enabled'')"
    by (simp add: obj_get_def)
  have h3: "''statusLine'' \<notin> fst ` set (own_props (opt_get ?preset ''claudeCodeSettings''))"
    by (simp add: obj_get_def)
  show ?thesis
    using h1 h3 preset_statusLine_priority [OF h1 h2 h3, of interactive_world "[]" JUndefined
        "Some ''fast''"]
    by simp
qed

text \<open>
  Claim C5 as it is written fails: a \<^verbatim>\<open>statusLine\<close> key in the preset's
  \<^verbatim>\<open>claudeCodeSettings\<close> wins the shallow merge of lines 64 to 74 and replaces the
  synthesized status line, although the preset's and the global status line are both
  enabled and a preset name is passed.
\<close>

theorem nested_statusLine_replaces_synthesized:
  "obj_get (settingsFlag (executeCodeCommand interactive_world []
       (JObj [(''StatusLine'', JObj [(''enabled'', JBool True)]),
              (''claudeCodeSettings'',
                 JObj [(''statusLine'', JObj [(''type'', JStr ''command''),
                                              (''command'', JStr ''my-statusline'')])])])
       JUndefined (Some ''fast''))) ''statusLine'' =
     JObj [(''type'', JStr ''command''), (''command'', JStr ''my-statusline'')]
   \<and> obj_get (settingsFlag (executeCodeCommand interactive_world []
       (JObj [(''StatusLine'', JObj [(''enabled'', JBool True)]),
              (''claudeCodeSettings'',
                 JObj [(''statusLine'', JObj [(''type'', JStr ''command''),
                                              (''command'', JStr ''my-statusline'')])])])
       JUndefined (Some ''fast''))) ''statusLine'' \<noteq>
     JObj [(''type'', JStr ''command''), (''command'', JStr ''ccr statusline fast''),
           (''padding'', JNum 0)]"
  by (simp add: settingsFlag_launch build_settingsFlag_def initial_settingsFlag_def Let_def
      interactive_world_def automation_world_def add_statusLine_def js_or_def obj_get_def
      merge_claudeCodeSettings_def spread_into_def force_nonInteractive_def
      statuslineCommand_def)

section \<open>The argument translation\<close>

lemma translate_args_tokens:
  "translate_args str ni es acc = acc @ concat (map (flag_tokens str ni) es)"
  by (induction es arbitrary: acc) (auto simp: flag_tokens_def)

text \<open>
  Claim C4. In the translation of the parsed flags, in interactive and in
  non-interactive mode alike, a flag whose value is \<^verbatim>\<open>true\<close> contributes exactly one
  bare token, with a single dash for a one-character name and a double dash otherwise,
  and no value token; a flag whose value is \<^verbatim>\<open>false\<close> contributes no token. A flag
  is an entry of the parsed object other than the positional entry \<^verbatim>\<open>_\<close>.
\<close>

theorem boolean_flags_translation:
  assumes "k \<noteq> ''_''"
  shows "translate_args str ni (before @ (k, JBool True) # rest) [] =
           translate_args str ni before [] @ [(if length k = 1 then ''-'' else ''--'') @ k]
             @ translate_args str ni rest []
       \<and> translate_args str ni (before @ (k, JBool False) # rest) [] =
           translate_args str ni before [] @ translate_args str ni rest []"
  using assms by (simp add: translate_args_tokens flag_tokens_def flag_prefix_def)

text \<open>
  The theorem at a one-character flag between the positional entry and a string flag,
  in interactive mode.
\<close>

theorem boolean_flags_translation_witness:
  "''v'' \<noteq> ''_''
   \<and> translate_args (\<lambda>v. ''{}'') False
       ([(''_'', JArr [])] @ (''v'', JBool True) # [(''model'', JStr ''x'')]) [] =
       [''-v'', ''--model {}'']
   \<and> translate_args (\<lambda>v. ''{}'') False
       ([(''_'', JArr [])] @ (''v'', JBool False) # [(''model'', JStr ''x'')]) [] =
       [''--model {}'']"
proof -
  have h: "''v'' \<noteq> ''_''" by simp
  show ?thesis
    using h boolean_flags_translation [OF h, of "\<lambda>v. ''{}''" False "[(''_'', JArr [])]"
        "[(''model'', JStr ''x'')]"]
    by (simp add: flag_prefix_def)
qed

section \<open>The launch\<close>

lemma wire_stdin_cases:
  "wire_stdin claudeProcess ni = ([], [])
   \<or> wire_stdin claudeProcess ni = ([StdinPipe], [OnStdinEnd])"
  by (simp add: wire_stdin_def)

lemma wire_stdout_cases:
  "wire_stdout w claudeProcess ni = None \<or> wire_stdout w claudeProcess ni = Some ([], [])
   \<or> wire_stdout w claudeProcess ni = Some ([StdoutPipe], [])
   \<or> (\<exists>p fd. wire_stdout w claudeProcess ni =
         Some ([OpenSync p fd], [OnStdoutData fd, OnCloseFd fd]))"
  by (auto simp: wire_stdout_def Let_def split: option.splits)

text \<open>
  The shape of every launch: the increment and the call of \<^verbatim>\<open>spawn\<close> come first;
  what follows is the wiring of the streams; the listeners are the two handlers after
  the quiet ones when the function returned, and quiet ones only when it threw.
\<close>

lemma launch_shape:
  "\<exists>wiring pre.
     effects (executeCodeCommand w args presetConfig envOverrides presetName) =
       [IncrementReferenceCount,
        Spawn (js_or (js_or (obj_get (readConfigFile w) ''CLAUDE_PATH'')
                            (obj_get (process_env w) ''CLAUDE_PATH''))
                     (JStr ''claude''))
          (translate_args (JSON_stringify w)
             (truthy (obj_get (readConfigFile w) ''NON_INTERACTIVE_MODE''))
             (minimist w (args @ [''--settings'',
                getSettingsPath w (JSON_stringify w
                  (JObj (build_settingsFlag w presetConfig envOverrides presetName)))])) [])
          \<lparr>env = spread_into [] (process_env w),
           stdio = (if truthy (obj_get (readConfigFile w) ''NON_INTERACTIVE_MODE'')
                    then StdioArray [''pipe'', ''pipe'', ''inherit''] else StdioInherit),
           shell = (\<not> truthy (obj_get (readConfigFile w) ''NON_INTERACTIVE_MODE''))\<rparr>]
       @ wiring
   \<and> list_all is_wiring wiring
   \<and> list_all quiet pre
   \<and> listeners (executeCodeCommand w args presetConfig envOverrides presetName) =
       (if threw (executeCodeCommand w args presetConfig envOverrides presetName)
        then pre else pre @ [OnError, OnClose])"
proof (cases "spawn_call w
    (js_or (js_or (obj_get (readConfigFile w) ''CLAUDE_PATH'')
                  (obj_get (process_env w) ''CLAUDE_PATH'')) (JStr ''claude''))
    (translate_args (JSON_stringify w)
       (truthy (obj_get (readConfigFile w) ''NON_INTERACTIVE_MODE''))
       (minimist w (args @ [''--settings'',
          getSettingsPath w (JSON_stringify w
            (JObj (build_settingsFlag w presetConfig envOverrides presetName)))])) [])
    \<lparr>env = spread_into [] (process_env w),
     stdio = (if truthy (obj_get (readConfigFile w) ''NON_INTERACTIVE_MODE'')
              then StdioArray [''pipe'', ''pipe'', ''inherit''] else StdioInherit),
     shell = (\<not> truthy (obj_get (readConfigFile w) ''NON_INTERACTIVE_MODE''))\<rparr>")
  case None
  then show ?thesis
    by (intro exI [of _ "[]"]) (simp add: executeCodeCommand_def Let_def)
next
  case (Some claudeProcess)
  let ?ni = "truthy (obj_get (readConfigFile w) ''NON_INTERACTIVE_MODE'')"
  obtain effs_in lsn_in where i: "wire_stdin claudeProcess ?ni = (effs_in, lsn_in)"
    by (cases "wire_stdin claudeProcess ?ni")
  have i': "list_all is_wiring effs_in" "list_all quiet lsn_in"
    using wire_stdin_cases [of claudeProcess ?ni] i by auto
  show ?thesis
  proof (cases "wire_stdout w claudeProcess ?ni")
    case None
    with Some i i' show ?thesis
      by (intro exI [of _ effs_in] exI [of _ lsn_in])
         (auto simp: executeCodeCommand_def Let_def)
  next
    case (Some out)
    obtain effs_out lsn_out where o: "out = (effs_out, lsn_out)" by (cases out)
    have o': "list_all is_wiring effs_out" "list_all quiet lsn_out"
      using wire_stdout_cases [of w claudeProcess ?ni] Some o by auto
    from \<open>spawn_call _ _ _ _ = Some claudeProcess\<close> Some o i i' o' show ?thesis
      by (intro exI [of _ "effs_in @ effs_out"] exI [of _ "lsn_in @ lsn_out"])
         (auto simp: executeCodeCommand_def Let_def)
  qed
qed

lemma spawn_envs_wiring:
  "list_all is_wiring wiring \<Longrightarrow>
     spawn_envs wiring = [] \<and> spawn_argvs wiring = []
     \<and> increments wiring = 0 \<and> decrements wiring = 0"
proof (induction wiring)
  case Nil
  then show ?case by (simp add: increments_def decrements_def)
next
  case (Cons e wiring)
  then show ?case by (cases e) (auto simp: increments_def decrements_def)
qed


lemma spawn_argvs_append: "spawn_argvs (xs @ ys) = spawn_argvs xs @ spawn_argvs ys"
  by (induction xs rule: spawn_argvs.induct) auto


lemma spawn_argvs_launch:
  "spawn_argvs (effects (executeCodeCommand w args presetConfig envOverrides presetName)) =
     [translate_args (JSON_stringify w)
        (truthy (obj_get (readConfigFile w) ''NON_INTERACTIVE_MODE''))
        (minimist w (args @ [''--settings'',
            getSettingsPath w (JSON_stringify w
              (JObj (build_settingsFlag w presetConfig envOverrides presetName)))])) []]"
  using launch_shape [of w args presetConfig envOverrides presetName] spawn_envs_wiring
  by (auto simp: spawn_argvs_append)

lemma launch_frame:
  "args_after (executeCodeCommand w args presetConfig envOverrides presetName) =
     args @ [''--settings'', getSettingsPath w (JSON_stringify w
              (JObj (build_settingsFlag w presetConfig envOverrides presetName)))]
   \<and> presetConfig_after (executeCodeCommand w args presetConfig envOverrides presetName) =
       presetConfig
   \<and> envOverrides_after (executeCodeCommand w args presetConfig envOverrides presetName) =
       envOverrides"
  by (simp add: executeCodeCommand_def Let_def split: option.splits prod.splits)

lemma listeners_launch:
  assumes "\<not> threw (executeCodeCommand w args presetConfig envOverrides presetName)"
  shows "\<exists>pre. listeners (executeCodeCommand w args presetConfig envOverrides presetName) =
           pre @ [OnError, OnClose] \<and> list_all quiet pre"
  using assms launch_shape [of w args presetConfig envOverrides presetName] by auto

lemma listeners_launch_threw:
  assumes "threw (executeCodeCommand w args presetConfig envOverrides presetName)"
  shows "list_all quiet
           (listeners (executeCodeCommand w args presetConfig envOverrides presetName))"
  using assms launch_shape [of w args presetConfig envOverrides presetName] by auto

lemma effects_launch_counts:
  "increments (effects (executeCodeCommand w args presetConfig envOverrides presetName)) = 1
   \<and> decrements (effects (executeCodeCommand w args presetConfig envOverrides presetName)) = 0"
proof -
  obtain wiring first where
    e: "effects (executeCodeCommand w args presetConfig envOverrides presetName) =
          [IncrementReferenceCount, first] @ wiring"
    and f: "\<exists>c a opts. first = Spawn c a opts"
    and wi: "list_all is_wiring wiring"
    using launch_shape [of w args presetConfig envOverrides presetName] by blast
  from spawn_envs_wiring [OF wi] f show ?thesis
    unfolding e by (auto simp: increments_def decrements_def)
qed

text \<open>
  Claim C6. In non-interactive mode, for the argument list \<^verbatim>\<open>["--model","x"]\<close>, which
  \<^verbatim>\<open>minimist\<close> parses, after \<^verbatim>\<open>--settings <path>\<close> has been pushed, into the flags
  \<^verbatim>\<open>model = "x"\<close> and \<^verbatim>\<open>settings = <path>\<close>, the spawned argument vector carries the flag
  name and its value as the two discrete tokens \<^verbatim>\<open>--model\<close> and \<^verbatim>\<open>x\<close> (followed by
  the two tokens of the settings flag). In that mode every flag with a value other than
  \<^verbatim>\<open>true\<close>, \<^verbatim>\<open>false\<close> and \<^verbatim>\<open>undefined\<close> gives two tokens, the name and the value: a
  string raw, anything else through \<^verbatim>\<open>JSON.stringify\<close>.
\<close>

theorem separate_tokens_nonInteractive:
  assumes "truthy (obj_get (readConfigFile w) ''NON_INTERACTIVE_MODE'')"
    and "minimist w ([''--model'', ''x''] @ [''--settings'',
            getSettingsPath w (JSON_stringify w
              (JObj (build_settingsFlag w presetConfig envOverrides presetName)))]) =
          [(''_'', JArr []), (''model'', JStr ''x''), (''settings'', JStr settingsFile)]"
  shows "spawn_argvs (effects
           (executeCodeCommand w [''--model'', ''x''] presetConfig envOverrides presetName)) =
           [[''--model'', ''x'', ''--settings'', settingsFile]]
       \<and> (\<forall>k v. k \<noteq> ''_'' \<and> v \<noteq> JUndefined \<and> v \<noteq> JBool True \<and> v \<noteq> JBool False \<longrightarrow>
             translate_args (JSON_stringify w) True [(k, v)] [] =
               [(if length k = 1 then ''-'' else ''--'') @ k,
                (case v of JStr s \<Rightarrow> s | _ \<Rightarrow> JSON_stringify w v)])"
  using assms
  by (simp add: spawn_argvs_launch flag_prefix_def)

theorem separate_tokens_nonInteractive_witness:
  "truthy (obj_get (readConfigFile automation_world) ''NON_INTERACTIVE_MODE'')
   \<and> minimist automation_world [''--model'', ''x'', ''--settings'', ''/tmp/settings.json''] =
       [(''_'', JArr []), (''model'', JStr ''x''), (''settings'', JStr ''/tmp/settings.json'')]
   \<and> spawn_argvs (effects
       (executeCodeCommand automation_world [''--model'', ''x''] JUndefined JUndefined None)) =
       [[''--model'', ''x'', ''--settings'', ''/tmp/settings.json'']]
   \<and> translate_args (JSON_stringify automation_world) True [(''n'', JNum 5)] [] =
       [''-n'', ''{}'']"
proof -
  have h1: "truthy (obj_get (readConfigFile automation_world) ''NON_INTERACTIVE_MODE'')"
    by (simp add: automation_world_def obj_get_def)
  have p: "minimist automation_world
             [''--model'', ''x'', ''--settings'', ''/tmp/settings.json''] =
           [(''_'', JArr []), (''model'', JStr ''x''),
            (''settings'', JStr ''/tmp/settings.json'')]"
    by (simp add: automation_world_def)
  have h2: "minimist automation_world ([''--model'', ''x''] @ [''--settings'',
            getSettingsPath automation_world (JSON_stringify automation_world
              (JObj (build_settingsFlag automation_world JUndefined JUndefined None)))]) =
          [(''_'', JArr []), (''model'', JStr ''x''),
           (''settings'', JStr ''/tmp/settings.json'')]"
    by (simp add: automation_world_def)
  from separate_tokens_nonInteractive [OF h1 h2]
  have a: "spawn_argvs (effects
       (executeCodeCommand automation_world [''--model'', ''x''] JUndefined JUndefined None)) =
       [[''--model'', ''x'', ''--settings'', ''/tmp/settings.json'']]"
    and b: "\<forall>k v. k \<noteq> ''_'' \<and> v \<noteq> JUndefined \<and> v \<noteq> JBool True \<and> v \<noteq> JBool False \<longrightarrow>
             translate_args (JSON_stringify automation_world) True [(k, v)] [] =
               [(if length k = 1 then ''-'' else ''--'') @ k,
                (case v of JStr s \<Rightarrow> s | _ \<Rightarrow> JSON_stringify automation_world v)]"
    by blast+
  from b [rule_format, of "''n''" "JNum 5"]
  have "translate_args (JSON_stringify automation_world) True [(''n'', JNum 5)] [] =
       [''-n'', JSON_stringify automation_world (JNum 5)]"
    by simp
  then have c: "translate_args (JSON_stringify automation_world) True [(''n'', JNum 5)] [] =
       [''-n'', ''{}'']"
    by (simp add: automation_world_def)
  from h1 p a c show ?thesis by blast
qed

text \<open>
  Claim C9, as the code has it. A call leaves the preset configuration and the
  environment overrides as they were, and extends the caller's argument array in place
  by the two elements \<^verbatim>\<open>--settings\<close> and the path of the settings file, its earlier
  elements unchanged.
\<close>

theorem launch_appends_settings_to_args:
  "args_after (executeCodeCommand w args presetConfig envOverrides presetName) =
     args @ [''--settings'', getSettingsPath w (JSON_stringify w
              (JObj (settingsFlag
                 (executeCodeCommand w args presetConfig envOverrides presetName))))]
   \<and> presetConfig_after (executeCodeCommand w args presetConfig envOverrides presetName) =
       presetConfig
   \<and> envOverrides_after (executeCodeCommand w args presetConfig envOverrides presetName) =
       envOverrides"
  by (simp add: launch_frame settingsFlag_launch)

text \<open>
  Claim C9 as it is written fails: after a call with \<^verbatim>\<open>["--model","x"]\<close> the caller's
  array has four elements (line 89 pushes into it).
\<close>

theorem args_array_is_mutated:
  "args_after (executeCodeCommand interactive_world [''--model'', ''x'']
       JUndefined JUndefined None) =
     [''--model'', ''x'', ''--settings'', ''/tmp/settings.json'']
   \<and> args_after (executeCodeCommand interactive_world [''--model'', ''x'']
       JUndefined JUndefined None) \<noteq>
     [''--model'', ''x'']"
  by (simp add: launch_frame interactive_world_def automation_world_def)







lemma distinct_add_statusLine:
  "distinct (map fst (add_statusLine config presetConfig presetName [(''env'', e)]))"
  by (simp add: add_statusLine_def Let_def)








section \<open>The listeners\<close>

lemma perform_exited: "exited h = Some c \<Longrightarrow> perform es h = h"
  by (cases es) auto

lemma emit_exited: "exited h = Some c \<Longrightarrow> emit ls ev h = h"
  by (induction ls) (auto simp: perform_exited)

lemma perform_no_exit:
  "exited h = None \<Longrightarrow> list_all (\<lambda>e. \<not> is_exit e) es \<Longrightarrow>
     perform es h = h\<lparr>trace := trace h @ es\<rparr>"
proof (induction es arbitrary: h)
  case Nil
  then show ?case by simp
next
  case (Cons e es)
  from Cons.prems have e: "\<not> is_exit e" and es: "list_all (\<lambda>e. \<not> is_exit e) es" by auto
  let ?h = "h\<lparr>trace := trace h @ [e], exited := None\<rparr>"
  have "perform es ?h = ?h\<lparr>trace := trace ?h @ es\<rparr>"
    by (rule Cons.IH) (simp_all add: es)
  moreover have "(case e of ProcessExit c \<Rightarrow> Some c | _ \<Rightarrow> None) = None"
    using e by (cases e) auto
  ultimately show ?case using Cons.prems(1) by simp
qed

lemma emit_append: "emit (xs @ ys) ev h = emit ys ev (emit xs ev h)"
  by (induction xs arbitrary: h) auto

lemma quiet_body_no_exit: "quiet l \<Longrightarrow> list_all (\<lambda>e. \<not> is_exit e) (listener_body l ev)"
  by (cases l; cases ev) auto

lemma emit_quiet:
  "exited h = None \<Longrightarrow> list_all quiet pre \<Longrightarrow>
     emit pre ev h = h\<lparr>trace := trace h @ concat (map (\<lambda>l. listener_body l ev) pre)\<rparr>"
proof (induction pre arbitrary: h)
  case Nil
  then show ?case by simp
next
  case (Cons l pre)
  from Cons.prems have l: "quiet l" and pre: "list_all quiet pre" by auto
  have step: "perform (listener_body l ev) h = h\<lparr>trace := trace h @ listener_body l ev\<rparr>"
    using Cons.prems(1) quiet_body_no_exit [OF l] by (rule perform_no_exit)
  have "emit pre ev (h\<lparr>trace := trace h @ listener_body l ev\<rparr>) =
        (h\<lparr>trace := trace h @ listener_body l ev\<rparr>)
          \<lparr>trace := trace (h\<lparr>trace := trace h @ listener_body l ev\<rparr>)
                     @ concat (map (\<lambda>l. listener_body l ev) pre)\<rparr>"
    by (rule Cons.IH) (simp_all add: Cons.prems(1) pre)
  with step show ?case by simp
qed

lemma quiet_body_error: "quiet l \<Longrightarrow> listener_body l (EvError message) = []"
  by (cases l) auto

lemma quiet_bodies_error:
  "list_all quiet pre \<Longrightarrow> concat (map (\<lambda>l. listener_body l (EvError message)) pre) = []"
  by (induction pre) (auto simp: quiet_body_error)

lemma quiet_body_close: "quiet l \<Longrightarrow> set (listener_body l (EvClose code)) \<subseteq> range CloseSync"
  by (cases l) auto

lemma quiet_bodies_close:
  "list_all quiet pre \<Longrightarrow>
     set (concat (map (\<lambda>l. listener_body l (EvClose code)) pre)) \<subseteq> range CloseSync"
  by (induction pre) (use quiet_body_close in auto)

lemma emit_error_registered:
  assumes "exited h = None" and "list_all quiet pre"
  shows "emit (pre @ [OnError, OnClose]) (EvError message) h =
           h\<lparr>trace := trace h @
               [ConsoleError [''Failed to start claude command:'', message],
                ConsoleLog [''Make sure Claude Code is installed: npm install -g @anthropic-ai/claude-code''],
                DecrementReferenceCount, ProcessExit 1],
             exited := Some 1\<rparr>"
  using assms
  by (simp add: emit_append emit_quiet quiet_bodies_error)

lemma emit_close_registered:
  assumes "exited h = None" and "list_all quiet pre"
  shows "emit (pre @ [OnError, OnClose]) (EvClose code) h =
           h\<lparr>trace := trace h @ concat (map (\<lambda>l. listener_body l (EvClose code)) pre) @
               [DecrementReferenceCount, CloseService, ProcessExit (code_or_0 code)],
             exited := Some (code_or_0 code)\<rparr>"
  using assms
  by (simp add: emit_append emit_quiet)

text \<open>
  With both handlers registered and the host process still running, the child's
  \<^verbatim>\<open>close\<close> event makes the launcher decrement the reference count, call
  \<^verbatim>\<open>closeService\<close> and exit the host process with the child's exit code, and with 0 when
  there is no exit code; before that, only the output file, if one was opened, is closed.
\<close>

lemma close_handler_when_registered:
  assumes "\<not> threw (executeCodeCommand w args presetConfig envOverrides presetName)"
    and "exited h = None"
  shows "\<exists>closes.
           set closes \<subseteq> range CloseSync
         \<and> trace (emit (listeners
                    (executeCodeCommand w args presetConfig envOverrides presetName))
                    (EvClose code) h) =
             trace h @ closes @
               [DecrementReferenceCount, CloseService,
                ProcessExit (case code of None \<Rightarrow> 0 | Some c \<Rightarrow> c)]
         \<and> exited (emit (listeners
                    (executeCodeCommand w args presetConfig envOverrides presetName))
                    (EvClose code) h) =
             Some (case code of None \<Rightarrow> 0 | Some c \<Rightarrow> c)"
proof -
  obtain pre where pre:
    "listeners (executeCodeCommand w args presetConfig envOverrides presetName) =
      pre @ [OnError, OnClose]" "list_all quiet pre"
    using listeners_launch [OF assms(1)] by blast
  have c: "code_or_0 code = (case code of None \<Rightarrow> 0 | Some c \<Rightarrow> c)"
    by (simp add: code_or_0_def split: option.splits)
  show ?thesis
    using quiet_bodies_close [OF pre(2), of code]
    by (intro exI [of _ "concat (map (\<lambda>l. listener_body l (EvClose code)) pre)"])
       (simp add: pre(1) emit_close_registered [OF assms(2) pre(2)] c)
qed

text \<open>
  With both handlers registered and the host process still running, the child's
  \<^verbatim>\<open>error\<close> event makes the launcher report the failure with the hint to install
  Claude Code, decrement the reference count and exit the host process with status 1;
  \<^verbatim>\<open>closeService\<close> is not called on this path.
\<close>

lemma spawn_error_handler_when_registered:
  assumes "\<not> threw (executeCodeCommand w args presetConfig envOverrides presetName)"
    and "exited h = None"
  shows "trace (emit (listeners
                  (executeCodeCommand w args presetConfig envOverrides presetName))
                  (EvError message) h) =
           trace h @
             [ConsoleError [''Failed to start claude command:'', message],
              ConsoleLog [''Make sure Claude Code is installed: npm install -g @anthropic-ai/claude-code''],
              DecrementReferenceCount,
              ProcessExit 1]
       \<and> exited (emit (listeners
                  (executeCodeCommand w args presetConfig envOverrides presetName))
                  (EvError message) h) = Some 1
       \<and> CloseService \<notin> set (drop (length (trace h))
            (trace (emit (listeners
                  (executeCodeCommand w args presetConfig envOverrides presetName))
                  (EvError message) h)))"
proof -
  obtain pre where pre:
    "listeners (executeCodeCommand w args presetConfig envOverrides presetName) =
      pre @ [OnError, OnClose]" "list_all quiet pre"
    using listeners_launch [OF assms(1)] by blast
  show ?thesis
    by (simp add: pre(1) emit_error_registered [OF assms(2) pre(2)])
qed

section \<open>The reference count\<close>

lemma body_no_increment: "IncrementReferenceCount \<notin> set (listener_body l ev)"
  by (cases l; cases ev) auto

lemma quiet_body_no_decrement:
  "quiet l \<Longrightarrow> DecrementReferenceCount \<notin> set (listener_body l ev)"
  by (cases l; cases ev) auto

lemma quiet_bodies_no_decrement:
  "list_all quiet pre \<Longrightarrow> decrements (concat (map (\<lambda>l. listener_body l ev) pre)) = 0"
  by (induction pre) (auto simp: decrements_def quiet_body_no_decrement)

lemma bodies_no_increment:
  "increments (concat (map (\<lambda>l. listener_body l ev) pre)) = 0"
  by (induction pre) (auto simp: increments_def body_no_increment)

lemma decrements_append: "decrements (xs @ ys) = decrements xs + decrements ys"
  by (simp add: decrements_def)

lemma increments_append: "increments (xs @ ys) = increments xs + increments ys"
  by (simp add: increments_def)

lemma emit_nonterminal_registered:
  assumes "exited h = None" and "list_all quiet pre" and "\<not> terminal ev"
  shows "emit (pre @ [OnError, OnClose]) ev h =
           h\<lparr>trace := trace h @ concat (map (\<lambda>l. listener_body l ev) pre)\<rparr>"
  using assms by (cases ev) (simp_all add: emit_append emit_quiet)

text \<open>
  One event, with both handlers registered: the first \<^verbatim>\<open>error\<close> or \<^verbatim>\<open>close\<close> that
  reaches a running host decrements once and ends the host; every other event leaves
  the count alone.
\<close>

lemma emit_registered_step:
  assumes "list_all quiet pre"
  shows "decrements (trace (emit (pre @ [OnError, OnClose]) ev h)) =
           decrements (trace h) + (if exited h = None \<and> terminal ev then 1 else 0)
       \<and> increments (trace (emit (pre @ [OnError, OnClose]) ev h)) = increments (trace h)
       \<and> (exited (emit (pre @ [OnError, OnClose]) ev h) = None \<longleftrightarrow>
            exited h = None \<and> \<not> terminal ev)"
proof (cases "exited h")
  case (Some c)
  then show ?thesis by (simp add: emit_exited)
next
  case None
  show ?thesis
  proof (cases ev)
    case (EvError message)
    then show ?thesis
      using None assms
      by (simp add: emit_error_registered decrements_def increments_def)
  next
    case (EvClose code)
    then show ?thesis
      using None assms quiet_bodies_no_decrement [OF assms, of ev] bodies_no_increment [of ev pre]
      by (simp add: emit_close_registered decrements_append increments_append)
         (simp add: decrements_def increments_def)
  next
    case (EvStdoutData chunk)
    then have "\<not> terminal ev" by simp
    then show ?thesis
      using None assms quiet_bodies_no_decrement [OF assms, of ev] bodies_no_increment [of ev pre]
      by (simp add: emit_nonterminal_registered decrements_append increments_append)
  next
    case EvStdinEnd
    then have "\<not> terminal ev" by simp
    then show ?thesis
      using None assms quiet_bodies_no_decrement [OF assms, of ev] bodies_no_increment [of ev pre]
      by (simp add: emit_nonterminal_registered decrements_append increments_append)
  qed
qed

lemma deliver_registered:
  assumes "list_all quiet pre"
  shows "decrements (trace (deliver (pre @ [OnError, OnClose]) evs h)) =
           decrements (trace h) + (if exited h = None \<and> list_ex terminal evs then 1 else 0)
       \<and> increments (trace (deliver (pre @ [OnError, OnClose]) evs h)) = increments (trace h)"
proof (induction evs arbitrary: h)
  case Nil
  then show ?case by (simp add: deliver_def)
next
  case (Cons ev evs)
  have d: "deliver (pre @ [OnError, OnClose]) (ev # evs) h =
           deliver (pre @ [OnError, OnClose]) evs (emit (pre @ [OnError, OnClose]) ev h)"
    by (simp add: deliver_def)
  show ?case
    unfolding d
    using Cons.IH [of "emit (pre @ [OnError, OnClose]) ev h"]
      emit_registered_step [OF assms, of ev h]
    by auto
qed

text \<open>
  When \<^verbatim>\<open>executeCodeCommand\<close> returns, the increment is paired: whatever events
  follow, the trace holds one increment, and one decrement as soon as an \<^verbatim>\<open>error\<close> or a
  \<^verbatim>\<open>close\<close> has been delivered, never two.
\<close>

lemma refcount_paired_when_registered:
  assumes "\<not> threw (executeCodeCommand w args presetConfig envOverrides presetName)"
  shows "increments (trace (deliver
            (listeners (executeCodeCommand w args presetConfig envOverrides presetName)) evs
            (after_launch (executeCodeCommand w args presetConfig envOverrides presetName)))) = 1
       \<and> decrements (trace (deliver
            (listeners (executeCodeCommand w args presetConfig envOverrides presetName)) evs
            (after_launch (executeCodeCommand w args presetConfig envOverrides presetName)))) =
           (if list_ex terminal evs then 1 else 0)"
proof -
  obtain pre where pre:
    "listeners (executeCodeCommand w args presetConfig envOverrides presetName) =
      pre @ [OnError, OnClose]" "list_all quiet pre"
    using listeners_launch [OF assms] by blast
  show ?thesis
    using deliver_registered [OF pre(2), of evs
        "after_launch (executeCodeCommand w args presetConfig envOverrides presetName)"]
      effects_launch_counts [of w args presetConfig envOverrides presetName]
    by (simp add: pre(1) after_launch_def)
qed

lemma emit_all_quiet:
  assumes "list_all quiet ls" and "exited h = None"
  shows "exited (emit ls ev h) = None
       \<and> decrements (trace (emit ls ev h)) = decrements (trace h)"
  using assms quiet_bodies_no_decrement [OF assms(1), of ev]
  by (simp add: emit_quiet decrements_append)

lemma deliver_all_quiet:
  assumes "list_all quiet ls"
  shows "exited h = None \<Longrightarrow>
         exited (deliver ls evs h) = None
       \<and> decrements (trace (deliver ls evs h)) = decrements (trace h)"
proof (induction evs arbitrary: h)
  case Nil
  then show ?case by (simp add: deliver_def)
next
  case (Cons ev evs)
  have d: "deliver ls (ev # evs) h = deliver ls evs (emit ls ev h)"
    by (simp add: deliver_def)
  from emit_all_quiet [OF assms Cons.prems, of ev] Cons.IH [of "emit ls ev h"]
  show ?case unfolding d by simp
qed

lemma leak_launch:
  "threw (executeCodeCommand leak_world [] JUndefined JUndefined None)
   \<and> listeners (executeCodeCommand leak_world [] JUndefined JUndefined None) = [OnStdinEnd]"
  by (simp add: executeCodeCommand_def leak_world_def automation_world_def Let_def
      spawn_call_def js_or_def wire_stdin_def wire_stdout_def obj_get_def)

lemma leak_effects:
  "effects (executeCodeCommand leak_world [] JUndefined JUndefined None) =
     [IncrementReferenceCount,
      Spawn (JStr ''claude'') [''--settings'', ''/tmp/settings.json'']
        \<lparr>env = [(''PATH'', JStr ''/usr/bin''),
                (''CCR_OUTPUT_FILE'', JStr ''/nonexistent/out.jsonl'')],
         stdio = StdioArray [''pipe'', ''pipe'', ''inherit''],
         shell = False\<rparr>,
      StdinPipe]"
  by (simp add: executeCodeCommand_def leak_world_def automation_world_def Let_def
      spawn_call_def js_or_def wire_stdin_def wire_stdout_def obj_get_def
      spread_into_def flag_prefix_def)

text \<open>
  Claim C1 does not hold for every call. In non-interactive mode with
  \<^verbatim>\<open>CCR_OUTPUT_FILE\<close> naming a file that cannot be opened, \<^verbatim>\<open>fs.openSync\<close> on line 159
  throws after the increment of line 92 and the spawn of line 129, and before the
  \<^verbatim>\<open>error\<close> and \<^verbatim>\<open>close\<close> handlers of lines 173 to 186 are registered: the trace holds
  one increment, the only listener is the one on the parent's standard input, and no
  sequence of events, the child's \<^verbatim>\<open>close\<close> included, brings a decrement.
\<close>

theorem openSync_throw_leaves_increment_unmatched:
  "threw (executeCodeCommand leak_world [] JUndefined JUndefined None)
   \<and> increments (effects (executeCodeCommand leak_world [] JUndefined JUndefined None)) = 1
   \<and> listeners (executeCodeCommand leak_world [] JUndefined JUndefined None) = [OnStdinEnd]
   \<and> (\<forall>evs. decrements (trace (deliver
              (listeners (executeCodeCommand leak_world [] JUndefined JUndefined None)) evs
              (after_launch (executeCodeCommand leak_world [] JUndefined JUndefined None)))) = 0)"
proof -
  let ?L = "executeCodeCommand leak_world [] JUndefined JUndefined None"
  have q: "list_all quiet (listeners ?L)" by (simp add: leak_launch)
  have e: "exited (after_launch ?L) = None" by (simp add: after_launch_def)
  have "decrements (trace (deliver (listeners ?L) evs (after_launch ?L))) = 0" for evs
    using deliver_all_quiet [OF q e, of evs]
      effects_launch_counts [of leak_world "[]" JUndefined JUndefined None]
    by (simp add: after_launch_def)
  then show ?thesis
    using leak_launch effects_launch_counts [of leak_world "[]" JUndefined JUndefined None]
    by simp
qed

text \<open>
  Claim C7 does not hold for every call, by the defect of claim C1. After the call
  above, in which \<^verbatim>\<open>fs.openSync\<close> threw before line 182 was reached, the child runs
  with no \<^verbatim>\<open>close\<close> handler of the launcher: whatever exit code the \<^verbatim>\<open>close\<close> event
  carries, the launcher neither decrements the reference count nor calls
  \<^verbatim>\<open>closeService\<close> nor exits the host process.
\<close>

theorem close_event_after_openSync_throw:
  "threw (executeCodeCommand leak_world [] JUndefined JUndefined None)
   \<and> (\<forall>code.
        trace (emit (listeners (executeCodeCommand leak_world [] JUndefined JUndefined None))
                 (EvClose code)
                 (after_launch (executeCodeCommand leak_world [] JUndefined JUndefined None))) =
          effects (executeCodeCommand leak_world [] JUndefined JUndefined None)
      \<and> exited (emit (listeners (executeCodeCommand leak_world [] JUndefined JUndefined None))
                 (EvClose code)
                 (after_launch (executeCodeCommand leak_world [] JUndefined JUndefined None))) =
          None)
   \<and> DecrementReferenceCount \<notin>
        set (effects (executeCodeCommand leak_world [] JUndefined JUndefined None))
   \<and> CloseService \<notin>
        set (effects (executeCodeCommand leak_world [] JUndefined JUndefined None))"
  by (simp add: leak_launch leak_effects after_launch_def)

text \<open>
  Claim C8 does not hold for every call, by the defect of claim C1. After the same
  call, in which \<^verbatim>\<open>fs.openSync\<close> threw before line 173 was reached, the child has no
  \<^verbatim>\<open>error\<close> handler of the launcher: on an \<^verbatim>\<open>error\<close> event the launcher reports
  nothing, gives no hint, does not decrement the reference count and does not call
  \<^verbatim>\<open>process.exit(1)\<close>.
\<close>

theorem error_event_after_openSync_throw:
  "threw (executeCodeCommand leak_world [] JUndefined JUndefined None)
   \<and> (\<forall>message.
        trace (emit (listeners (executeCodeCommand leak_world [] JUndefined JUndefined None))
                 (EvError message)
                 (after_launch (executeCodeCommand leak_world [] JUndefined JUndefined None))) =
          effects (executeCodeCommand leak_world [] JUndefined JUndefined None))
   \<and> DecrementReferenceCount \<notin>
        set (effects (executeCodeCommand leak_world [] JUndefined JUndefined None))
   \<and> (\<forall>texts. ConsoleError texts \<notin>
        set (effects (executeCodeCommand leak_world [] JUndefined JUndefined None)))
   \<and> (\<forall>texts. ConsoleLog texts \<notin>
        set (effects (executeCodeCommand leak_world [] JUndefined JUndefined None)))
   \<and> (\<forall>status. ProcessExit status \<notin>
        set (effects (executeCodeCommand leak_world [] JUndefined JUndefined None)))"
  by (simp add: leak_launch leak_effects after_launch_def)

end
